theory Spec2Isabelle
  imports Complex_Main "HOL-Library.Word"
begin

unbundle bit_operations_syntax

section \<open>The iteration layer of string.h\<close>

text \<open>
  \<^verbatim>\<open>StringConstIterator<T>\<close> wraps one raw pointer \<^verbatim>\<open>T* ptr\<close>. The pointer is
  modelled by the position it addresses, counted in elements: \<^verbatim>\<open>++ptr\<close> adds one
  element, \<^verbatim>\<open>ptr += n\<close> adds \<open>n\<close>. \<^verbatim>\<open>StringIterator<T>\<close> derives from it, adds no
  member, and forwards its operators to the base.
\<close>

record StringConstIterator =
  ptr :: int

type_synonym StringIterator = StringConstIterator

definition StringConstIterator_pre_inc :: "StringConstIterator \<Rightarrow> StringConstIterator" where
  \<comment> \<open>\<^verbatim>\<open>Self& operator++() { ++ptr; return *this; }\<close>\<close>
  "StringConstIterator_pre_inc it = it\<lparr>ptr := ptr it + 1\<rparr>"

definition StringConstIterator_pre_dec :: "StringConstIterator \<Rightarrow> StringConstIterator" where
  \<comment> \<open>\<^verbatim>\<open>Self& operator--() { ++ptr; return *this; }\<close> (lines 47 to 51)\<close>
  "StringConstIterator_pre_dec it = it\<lparr>ptr := ptr it + 1\<rparr>"

definition StringConstIterator_add_assign :: "StringConstIterator \<Rightarrow> int \<Rightarrow> StringConstIterator" where
  \<comment> \<open>\<^verbatim>\<open>Self& operator+=(difference_type n) { ptr += n; return *this; }\<close>\<close>
  "StringConstIterator_add_assign it n = it\<lparr>ptr := ptr it + n\<rparr>"

definition StringConstIterator_sub_assign :: "StringConstIterator \<Rightarrow> int \<Rightarrow> StringConstIterator" where
  \<comment> \<open>\<^verbatim>\<open>Self& operator-=(difference_type n) { ptr -= n; return *this; }\<close>\<close>
  "StringConstIterator_sub_assign it n = it\<lparr>ptr := ptr it - n\<rparr>"

definition StringConstIterator_distance :: "StringConstIterator \<Rightarrow> StringConstIterator \<Rightarrow> int" where
  \<comment> \<open>\<^verbatim>\<open>difference_type operator-(const Self& rhs) const\<close>\<close>
  "StringConstIterator_distance it rhs = ptr it - ptr rhs"

definition StringIterator_pre_inc :: "StringIterator \<Rightarrow> StringIterator" where
  \<comment> \<open>\<^verbatim>\<open>++*static_cast<Base*>(this);\<close>\<close>
  "StringIterator_pre_inc it = StringConstIterator_pre_inc it"

definition StringIterator_pre_dec :: "StringIterator \<Rightarrow> StringIterator" where
  \<comment> \<open>\<^verbatim>\<open>--*static_cast<Base*>(this);\<close> (lines 162 to 166)\<close>
  "StringIterator_pre_dec it = StringConstIterator_pre_dec it"

section \<open>The storage record\<close>

text \<open>
  \<^verbatim>\<open>size_type\<close> is \<^verbatim>\<open>std::size_t\<close>, taken as 64 bits wide (an LP64 platform), and
  \<^verbatim>\<open>difference_type\<close> as the 64-bit signed \<^verbatim>\<open>ptrdiff_t\<close>. The character type
  \<^verbatim>\<open>CharT\<close> is \<open>'c word\<close>: \<open>8 word\<close> is \<^verbatim>\<open>char\<close>, \<open>16 word\<close> is \<^verbatim>\<open>char16_t\<close>,
  \<open>32 word\<close> is \<^verbatim>\<open>char32_t\<close>; \<^verbatim>\<open>value_type()\<close>, the terminating sentinel, is \<open>0\<close>.
\<close>

type_synonym size_type = "64 word"

datatype error = OutOfRange | LengthError | AllocationFailure

type_synonym addr = nat

text \<open>
  A memory cell holds a character or is indeterminate (\<open>None\<close>): never written, or
  overlaid by the other member of the union.
\<close>

type_synonym 'v cells = "'v option list"

text \<open>
  A \<^verbatim>\<open>value_type*\<close> as the string uses it: the start of a heap block, the start of
  the object's own inline array, or the bytes of the pointer member read while
  the inline array is the active member of the union (\<open>Wild\<close>).
\<close>

datatype pointer = Heap addr | Inline | Wild

text \<open>
  \<^verbatim>\<open>union Data { value_type buf[kBufferSize]; pointer ptr; ... }\<close>: one constructor
  for each member that can be active.
\<close>

datatype 'v Data = Buf "'v cells" | Ptr addr

record 'v StringValue =
  size_m :: size_type
  capacity_m :: size_type
  data_m :: "'v Data"

definition sizeof_value_type :: "'c::len itself \<Rightarrow> nat" where
  "sizeof_value_type (t :: 'c itself) = LENGTH('c) div 8"

definition kBufferSize :: "'c::len itself \<Rightarrow> size_type" where
  \<comment> \<open>\<^verbatim>\<open>kBufferSize = 16 / sizeof(value_type)\<close>\<close>
  "kBufferSize t = 16 div of_nat (sizeof_value_type t)"

definition kBufferMask :: "'c::len itself \<Rightarrow> size_type" where
  "kBufferMask t =
     (if sizeof_value_type t \<le> 1 then 15
      else if sizeof_value_type t \<le> 2 then 7
      else if sizeof_value_type t \<le> 4 then 3
      else if sizeof_value_type t \<le> 8 then 1 else 0)"

definition StringValue_ctor :: "'c::len word StringValue" where
  \<comment> \<open>\<^verbatim>\<open>StringValue() : size(0), capacity(0), data() { }\<close> with \<^verbatim>\<open>Data() : buf() { }\<close>\<close>
  "StringValue_ctor =
     \<lparr>size_m = 0, capacity_m = 0,
      data_m = Buf (replicate (unat (kBufferSize TYPE('c))) (Some 0))\<rparr>"

definition isShortString :: "'c::len word StringValue \<Rightarrow> bool" where
  \<comment> \<open>\<^verbatim>\<open>return capacity < kBufferSize;\<close>\<close>
  "isShortString v \<longleftrightarrow> capacity_m v < kBufferSize TYPE('c)"

definition data_ptr :: "'v Data \<Rightarrow> pointer" where
  \<comment> \<open>reading the member \<^verbatim>\<open>data.ptr\<close>\<close>
  "data_ptr d = (case d of Ptr p \<Rightarrow> Heap p | Buf _ \<Rightarrow> Wild)"

definition getPtr :: "'c::len word StringValue \<Rightarrow> pointer" where
  \<comment> \<open>\<^verbatim>\<open>ptr = data.ptr; if (isShortString()) ptr = data.buf; return ptr;\<close>\<close>
  "getPtr v = (if isShortString v then Inline else data_ptr (data_m v))"

definition checkIndex :: "'v StringValue \<Rightarrow> size_type \<Rightarrow> error + unit" where
  \<comment> \<open>\<^verbatim>\<open>if (idx > size) xRange();\<close>\<close>
  "checkIndex v idx = (if idx > size_m v then Inl OutOfRange else Inr ())"

section \<open>The allocator and the character traits\<close>

text \<open>
  Modelled from the spec: the allocator of \<^verbatim>\<open>memory.h\<close>, which is not among the
  sources. It provides \<^verbatim>\<open>allocate(n)\<close> and \<^verbatim>\<open>deallocate(p, n)\<close>; allocation can
  fail. The model is an instrumented allocator: it owns the blocks it has handed
  out, has room for \<open>available\<close> more elements, and records in \<open>trace\<close> every
  call made on it and every store through a pointer to one of its blocks
  (\<open>Store p off n\<close>: \<open>n\<close> cells from index \<open>off\<close>).
\<close>

datatype event =
    Allocate addr nat
  | AllocateFailed nat
  | Store addr nat nat
  | Deallocate pointer nat

record 'v allocator =
  blocks :: "addr \<rightharpoonup> 'v cells"
  fresh :: addr
  available :: nat
  trace :: "event list"

definition allocate :: "nat \<Rightarrow> 'v allocator \<Rightarrow> (error + addr) \<times> 'v allocator" where
  \<comment> \<open>Modelled from the spec: \<^verbatim>\<open>allocate(n)\<close> of the allocator of \<^verbatim>\<open>memory.h\<close>; hands out
      a fresh block of \<open>n\<close> unwritten cells, or fails when \<open>n\<close> exceeds the room left\<close>
  "allocate n a =
     (if n \<le> available a
      then (Inr (fresh a),
            a\<lparr>blocks := (blocks a)(fresh a \<mapsto> replicate n None),
              fresh := Suc (fresh a),
              available := available a - n,
              trace := trace a @ [Allocate (fresh a) n]\<rparr>)
      else (Inl AllocationFailure, a\<lparr>trace := trace a @ [AllocateFailed n]\<rparr>))"

definition deallocate :: "pointer \<Rightarrow> nat \<Rightarrow> 'v allocator \<Rightarrow> 'v allocator" where
  \<comment> \<open>Modelled from the spec: \<^verbatim>\<open>deallocate(p, n)\<close> of the allocator of \<^verbatim>\<open>memory.h\<close>; a
      pointer that is no heap block is recorded and releases nothing\<close>
  "deallocate p n a =
     (case p of
        Heap q \<Rightarrow> a\<lparr>blocks := (blocks a)(q := None),
                    available := available a + n,
                    trace := trace a @ [Deallocate p n]\<rparr>
      | _ \<Rightarrow> a\<lparr>trace := trace a @ [Deallocate p n]\<rparr>)"

record 'v basic_string =
  getAlloc :: "'v allocator"
  getVal :: "'v StringValue"

type_synonym 'v outcome = "(error \<times> 'v basic_string) + 'v basic_string"

definition overwrite :: "'a list \<Rightarrow> nat \<Rightarrow> 'a list \<Rightarrow> 'a list" where
  \<comment> \<open>\<open>xs\<close> written into a buffer from index \<open>off\<close>; what falls outside is dropped\<close>
  "overwrite b off xs = take (length b) (take off b @ xs @ drop (off + length xs) b)"

definition buf_cells :: "'c::len word Data \<Rightarrow> 'c word cells" where
  \<comment> \<open>the inline array as characters: indeterminate while the pointer is the active member\<close>
  "buf_cells d =
     (case d of Buf cs \<Rightarrow> cs | Ptr _ \<Rightarrow> replicate (unat (kBufferSize TYPE('c))) None)"

definition store :: "pointer \<Rightarrow> nat \<Rightarrow> 'c::len word cells \<Rightarrow> 'c word basic_string \<Rightarrow> 'c word basic_string" where
  \<comment> \<open>raw stores of \<open>xs\<close> at \<^verbatim>\<open>p[off]\<close>, \<^verbatim>\<open>p[off + 1]\<close>, ...\<close>
  "store p off xs s =
     (case p of
        Inline \<Rightarrow> s\<lparr>getVal := (getVal s)\<lparr>data_m := Buf (overwrite (buf_cells (data_m (getVal s))) off xs)\<rparr>\<rparr>
      | Heap q \<Rightarrow>
          s\<lparr>getAlloc := (getAlloc s)
              \<lparr>blocks := (case blocks (getAlloc s) q of
                            None \<Rightarrow> blocks (getAlloc s)
                          | Some b \<Rightarrow> (blocks (getAlloc s))(q \<mapsto> overwrite b off xs)),
               trace := trace (getAlloc s) @ [Store q off (length xs)]\<rparr>\<rparr>
      | Wild \<Rightarrow> s)"

definition deref :: "pointer \<Rightarrow> 'c::len word basic_string \<Rightarrow> 'c word cells" where
  \<comment> \<open>the cells readable from a pointer into the string's storage\<close>
  "deref p s =
     (case p of
        Inline \<Rightarrow> buf_cells (data_m (getVal s))
      | Heap q \<Rightarrow> (case blocks (getAlloc s) q of None \<Rightarrow> [] | Some b \<Rightarrow> b)
      | Wild \<Rightarrow> [])"

text \<open>
  Modelled from the spec: the character traits (\<^verbatim>\<open>std::char_traits\<close>), which are
  not among the sources: \<^verbatim>\<open>assign(p, n, c)\<close> stores \<open>n\<close> copies of \<open>c\<close>,
  \<^verbatim>\<open>assign(r, c)\<close> stores one character, \<^verbatim>\<open>move(dst, src, n)\<close> copies \<open>n\<close>
  characters, \<^verbatim>\<open>length(p)\<close> counts the characters before the first sentinel. A
  source pointer \<^verbatim>\<open>const value_type*\<close> is given by the cells readable from it;
  reading past them yields indeterminate cells.
\<close>

definition Traits_assign_n :: "pointer \<Rightarrow> size_type \<Rightarrow> 'c::len word \<Rightarrow> 'c word basic_string \<Rightarrow> 'c word basic_string" where
  \<comment> \<open>Modelled from the spec: \<^verbatim>\<open>Traits::assign(p, count, ch)\<close> of the character traits\<close>
  "Traits_assign_n p count ch s = store p 0 (replicate (unat count) (Some ch)) s"

definition Traits_assign :: "pointer \<Rightarrow> size_type \<Rightarrow> 'c::len word \<Rightarrow> 'c word basic_string \<Rightarrow> 'c word basic_string" where
  \<comment> \<open>Modelled from the spec: \<^verbatim>\<open>Traits::assign(p[idx], ch)\<close> of the character traits\<close>
  "Traits_assign p idx ch s = store p (unat idx) [Some ch] s"

definition Traits_move :: "pointer \<Rightarrow> 'c::len word cells \<Rightarrow> size_type \<Rightarrow> 'c word basic_string \<Rightarrow> 'c word basic_string" where
  \<comment> \<open>Modelled from the spec: \<^verbatim>\<open>Traits::move(p, src, count)\<close> of the character traits\<close>
  "Traits_move p src count s =
     store p 0 (take (unat count) src @ replicate (unat count - length src) None) s"

definition Traits_length :: "'c::len word cells \<Rightarrow> size_type" where
  \<comment> \<open>Modelled from the spec: \<^verbatim>\<open>Traits::length(src)\<close> of the character traits\<close>
  "Traits_length src = of_nat (length (takeWhile (\<lambda>c. c \<noteq> Some 0) src))"

section \<open>The growth engine\<close>

definition max_size :: "'c::len itself \<Rightarrow> size_type" where
  \<comment> \<open>\<^verbatim>\<open>min(static_cast<size_type>(-1) / sizeof(value_type) - 1,
        numeric_limits<difference_type>::max())\<close>\<close>
  "max_size t = min ((- 1) div of_nat (sizeof_value_type t) - 1) 0x7FFFFFFFFFFFFFFF"

definition checkLength :: "'c::len itself \<Rightarrow> size_type \<Rightarrow> error + unit" where
  \<comment> \<open>\<^verbatim>\<open>if (newSize >= max_size()) xLength();\<close>\<close>
  "checkLength t newSize = (if newSize \<ge> max_size t then Inl LengthError else Inr ())"

definition capacityGrowth :: "'c::len word basic_string \<Rightarrow> size_type \<Rightarrow> size_type" where
  "capacityGrowth s newSize =
     (let oldSize = size_m (getVal s);
          masked = newSize OR kBufferMask TYPE('c);
          maxSize = max_size TYPE('c)
      in if masked > maxSize then maxSize
         else if oldSize > maxSize - oldSize div 2 then maxSize
         else max masked (oldSize + oldSize div 2))"

text \<open>
  \<^verbatim>\<open>reallocAndAssign(newSize, func, args...)\<close>. The writer \<open>func\<close> receives the new
  buffer and \<open>newSize\<close>; its further arguments are part of the closure. An
  exception leaves with the state the object has at the throw.
\<close>

definition reallocAndAssign ::
  "size_type \<Rightarrow> (pointer \<Rightarrow> size_type \<Rightarrow> 'c::len word basic_string \<Rightarrow> 'c word basic_string)
     \<Rightarrow> 'c word basic_string \<Rightarrow> 'c word outcome" where
  "reallocAndAssign newSize func s =
     (case checkLength TYPE('c) newSize of
        Inl e \<Rightarrow> Inl (e, s)
      | Inr _ \<Rightarrow>
          let oldCapacity = capacity_m (getVal s);
              newCapacity = capacityGrowth s newSize
          in (case allocate (unat (newCapacity + 1)) (getAlloc s) of
                (Inl e, a) \<Rightarrow> Inl (e, s\<lparr>getAlloc := a\<rparr>)
              | (Inr newPtr, a) \<Rightarrow>
                  let s1 = s\<lparr>getAlloc := a,
                             getVal := (getVal s)\<lparr>size_m := newSize, capacity_m := newCapacity\<rparr>\<rparr>;
                      s2 = func (Heap newPtr) newSize s1;
                      s3 = (if oldCapacity \<ge> kBufferSize TYPE('c)
                            then s2\<lparr>getAlloc :=
                                      deallocate (data_ptr (data_m (getVal s2)))
                                        (unat (oldCapacity + 1)) (getAlloc s2)\<rparr>
                            else s2)
                  in Inr (s3\<lparr>getVal := (getVal s3)\<lparr>data_m := Ptr newPtr\<rparr>\<rparr>)))"

section \<open>Construction, reserve and destruction\<close>

definition initEmpty :: "'c::len word basic_string \<Rightarrow> 'c word basic_string" where
  \<comment> \<open>\<^verbatim>\<open>size = 0; capacity = kBufferSize - 1; Traits::assign(data.buf[0], value_type());\<close>\<close>
  "initEmpty s =
     Traits_assign Inline 0 0
       (s\<lparr>getVal := (getVal s)\<lparr>size_m := 0, capacity_m := kBufferSize TYPE('c) - 1\<rparr>\<rparr>)"

definition fill_writer ::
  "'c::len word \<Rightarrow> pointer \<Rightarrow> size_type \<Rightarrow> 'c word basic_string \<Rightarrow> 'c word basic_string" where
  \<comment> \<open>the writer of \<^verbatim>\<open>init(count, ch)\<close>:
      \<^verbatim>\<open>Traits::assign(dst, count, ch); Traits::assign(dst[count], value_type());\<close>\<close>
  "fill_writer ch dst count s = Traits_assign dst count 0 (Traits_assign_n dst count ch s)"

definition copy_writer ::
  "'c::len word cells \<Rightarrow> pointer \<Rightarrow> size_type \<Rightarrow> 'c word basic_string \<Rightarrow> 'c word basic_string" where
  \<comment> \<open>the writer of \<^verbatim>\<open>init(str, count)\<close>:
      \<^verbatim>\<open>Traits::move(dst, src, count); Traits::move(dst[count], value_type());\<close>,
      the second call read as the store of the sentinel that \<^verbatim>\<open>Traits::assign\<close> does\<close>
  "copy_writer src dst count s = Traits_assign dst count 0 (Traits_move dst src count s)"

definition init_fill :: "size_type \<Rightarrow> 'c::len word \<Rightarrow> 'c word basic_string \<Rightarrow> 'c word outcome" where
  \<comment> \<open>\<^verbatim>\<open>init(size_type count, value_type ch)\<close>\<close>
  "init_fill count ch s =
     (if count \<le> capacity_m (getVal s)
      then let p = getPtr (getVal s);
               s1 = s\<lparr>getVal := (getVal s)\<lparr>size_m := count\<rparr>\<rparr>
           in Inr (Traits_assign p count 0 (Traits_assign_n p count ch s1))
      else reallocAndAssign count (fill_writer ch) s)"

definition init_ptr_n :: "'c::len word cells \<Rightarrow> size_type \<Rightarrow> 'c word basic_string \<Rightarrow> 'c word outcome" where
  \<comment> \<open>\<^verbatim>\<open>init(const value_type* str, size_type count)\<close>; its test
      \<^verbatim>\<open>count <= getVal().capacity()\<close> is read as the comparison with the member
      \<^verbatim>\<open>capacity\<close>\<close>
  "init_ptr_n str count s =
     (if count \<le> capacity_m (getVal s)
      then let p = getPtr (getVal s);
               s1 = s\<lparr>getVal := (getVal s)\<lparr>size_m := count\<rparr>\<rparr>
           in Inr (Traits_assign p count 0 (Traits_move p str count s1))
      else reallocAndAssign count (copy_writer str) s)"

definition init_substr ::
  "'c::len word basic_string \<Rightarrow> size_type \<Rightarrow> size_type \<Rightarrow> 'c word basic_string \<Rightarrow> 'c word outcome" where
  \<comment> \<open>\<^verbatim>\<open>rhs.getVal().checkIndex(pos);
      count = min(count, rhs.getVal().size - pos);
      return init(rhs.getVal().getPtr(), count);\<close>\<close>
  "init_substr rhs pos count s =
     (case checkIndex (getVal rhs) pos of
        Inl e \<Rightarrow> Inl (e, s)
      | Inr _ \<Rightarrow>
          init_ptr_n (deref (getPtr (getVal rhs)) rhs) (min count (size_m (getVal rhs) - pos)) s)"

definition init_ptr :: "'c::len word cells \<Rightarrow> 'c word basic_string \<Rightarrow> 'c word outcome" where
  \<comment> \<open>\<^verbatim>\<open>return init(str, Traits::length(str));\<close>\<close>
  "init_ptr str s = init_ptr_n str (Traits_length str) s"

definition allocVal :: "'c::len word allocator \<Rightarrow> 'c word basic_string" where
  \<comment> \<open>Modelled from the spec: the paired storage \<^verbatim>\<open>extra::compress_pair\<close> of
      \<^verbatim>\<open>memory.h\<close>, which holds the allocator and the storage record. The member
      initialiser \<^verbatim>\<open>allocVal(a)\<close> copies the allocator and builds the record with
      \<^verbatim>\<open>StringValue()\<close>\<close>
  "allocVal a = \<lparr>getAlloc = a, getVal = StringValue_ctor\<rparr>"

definition basic_string_alloc :: "'c::len word allocator \<Rightarrow> 'c word basic_string" where
  \<comment> \<open>\<^verbatim>\<open>explicit basic_string(const Alloc& a) : allocVal(a) { initEmpty(); }\<close>\<close>
  "basic_string_alloc a = initEmpty (allocVal a)"

definition basic_string_fill :: "size_type \<Rightarrow> 'c::len word \<Rightarrow> 'c word allocator \<Rightarrow> 'c word outcome" where
  \<comment> \<open>\<^verbatim>\<open>basic_string(size_type count, value_type ch, const Alloc& a)
        : allocVal(a) { init(count, ch); }\<close>\<close>
  "basic_string_fill count ch a = init_fill count ch (allocVal a)"

definition basic_string_substr ::
  "'c::len word basic_string \<Rightarrow> size_type \<Rightarrow> size_type \<Rightarrow> 'c word allocator \<Rightarrow> 'c word outcome" where
  \<comment> \<open>\<^verbatim>\<open>basic_string(const basic_string& rhs, size_type pos, size_type count, const Alloc& a)
        : allocVal(a) { initEmpty(); init(rhs, pos, count); }\<close>\<close>
  "basic_string_substr rhs pos count a = init_substr rhs pos count (initEmpty (allocVal a))"

definition basic_string_ptr_n :: "'c::len word cells \<Rightarrow> size_type \<Rightarrow> 'c word allocator \<Rightarrow> 'c word outcome" where
  \<comment> \<open>\<^verbatim>\<open>basic_string(const value_type* str, size_type count, const Alloc& a)
        : allocVal(a) { initEmpty(); init(str, count); }\<close>\<close>
  "basic_string_ptr_n str count a = init_ptr_n str count (initEmpty (allocVal a))"

definition basic_string_ptr :: "'c::len word cells \<Rightarrow> 'c word allocator \<Rightarrow> 'c word outcome" where
  \<comment> \<open>\<^verbatim>\<open>basic_string(const value_type* str, const Alloc& a)
        : allocVal(a) { initEmpty(); init(str); }\<close>\<close>
  "basic_string_ptr str a = init_ptr str (initEmpty (allocVal a))"

definition tidy :: "'c::len word basic_string \<Rightarrow> 'c word basic_string" where
  \<comment> \<open>\<^verbatim>\<open>if (!getVal().isShortString())
        alloc.deallocate(getVal().getPtr(), getVal().capacity + 1);
      initEmpty();\<close>\<close>
  "tidy s =
     initEmpty
       (if \<not> isShortString (getVal s)
        then s\<lparr>getAlloc := deallocate (getPtr (getVal s)) (unat (capacity_m (getVal s) + 1)) (getAlloc s)\<rparr>
        else s)"

definition destructor :: "'c::len word basic_string \<Rightarrow> 'c word basic_string" where
  \<comment> \<open>\<^verbatim>\<open>~basic_string() { tidy(); }\<close>: what is left of the object and its allocator\<close>
  "destructor s = tidy s"

definition size_of :: "'v basic_string \<Rightarrow> size_type" where
  \<comment> \<open>\<^verbatim>\<open>size()\<close>\<close>
  "size_of s = size_m (getVal s)"

definition capacity :: "'v basic_string \<Rightarrow> size_type" where
  "capacity s = capacity_m (getVal s)"

definition shrink_to_fit :: "'v basic_string \<Rightarrow> 'v basic_string" where
  \<comment> \<open>\<^verbatim>\<open>void shrink_to_fit() { /* do nothing */ }\<close>\<close>
  "shrink_to_fit s = s"

definition reserve :: "size_type \<Rightarrow> 'v basic_string \<Rightarrow> 'v basic_string" where
  \<comment> \<open>the branch for \<^verbatim>\<open>newCapacity > capacity\<close> reads \<^verbatim>\<open>oldSize\<close> and \<^verbatim>\<open>value\<close> and ends\<close>
  "reserve newCapacity s =
     (if newCapacity < size_m (getVal s) then shrink_to_fit s
      else if newCapacity \<le> capacity_m (getVal s) then s
      else let oldSize = size_m (getVal s); val = getVal s in s)"

section \<open>Observations used to state the properties\<close>

definition buffer :: "'c::len word basic_string \<Rightarrow> 'c word cells" where
  \<comment> \<open>the cells at \<^verbatim>\<open>getPtr()\<close>\<close>
  "buffer s = deref (getPtr (getVal s)) s"

definition allocations :: "event list \<Rightarrow> nat" where
  \<comment> \<open>how often \<^verbatim>\<open>allocate\<close> was called\<close>
  "allocations tr = length (filter (\<lambda>e. case e of Allocate _ _ \<Rightarrow> True | AllocateFailed _ \<Rightarrow> True | _ \<Rightarrow> False) tr)"

definition new_allocator :: "nat \<Rightarrow> 'v allocator" where
  \<comment> \<open>an allocator that has handed out nothing and has room for \<open>n\<close> elements\<close>
  "new_allocator n = \<lparr>blocks = Map.empty, fresh = 0, available = n, trace = []\<rparr>"

definition c_string :: "string \<Rightarrow> 8 word cells" where
  \<comment> \<open>a terminated \<^verbatim>\<open>const char*\<close> literal\<close>
  "c_string cs = map (\<lambda>c. Some (of_char c)) cs @ [Some 0]"

section \<open>Concrete strings\<close>

definition hello_world :: "8 word basic_string" where
  \<comment> \<open>\<^verbatim>\<open>string("hello world")\<close>, as the pointer constructor builds it\<close>
  "hello_world =
     \<lparr>getAlloc = new_allocator 0,
      getVal = \<lparr>size_m = 11, capacity_m = 15,
                data_m = Buf (c_string ''hello world'' @ replicate 4 (Some 0))\<rparr>\<rparr>"

definition fill_20 :: "nat \<Rightarrow> 8 word basic_string" where
  \<comment> \<open>\<^verbatim>\<open>string(20, 'a')\<close>, built with an allocator that is left with \<open>room\<close> elements\<close>
  "fill_20 room =
     \<lparr>getAlloc = \<lparr>blocks = [0 \<mapsto> replicate 20 (Some 97) @ Some 0 # replicate 11 None],
                  fresh = 1, available = room,
                  trace = [Allocate 0 32, Store 0 0 20, Store 0 20 1]\<rparr>,
      getVal = \<lparr>size_m = 20, capacity_m = 31, data_m = Ptr 0\<rparr>\<rparr>"

definition fill_47 :: "8 word basic_string" where
  \<comment> \<open>\<^verbatim>\<open>string(47, 'a')\<close>\<close>
  "fill_47 =
     \<lparr>getAlloc = \<lparr>blocks = [0 \<mapsto> replicate 47 (Some 97) @ [Some 0]],
                  fresh = 1, available = 0,
                  trace = [Allocate 0 48, Store 0 0 47, Store 0 47 1]\<rparr>,
      getVal = \<lparr>size_m = 47, capacity_m = 47, data_m = Ptr 0\<rparr>\<rparr>"

section \<open>Evaluation and basic facts\<close>

lemmas width_defs = sizeof_value_type_def kBufferSize_def kBufferMask_def max_size_def

lemmas memory_defs = allocate_def deallocate_def store_def deref_def overwrite_def buf_cells_def
  Traits_assign_n_def Traits_assign_def Traits_move_def Traits_length_def

lemmas string_defs = StringValue_ctor_def isShortString_def data_ptr_def getPtr_def
  checkIndex_def checkLength_def capacityGrowth_def reallocAndAssign_def initEmpty_def
  fill_writer_def copy_writer_def init_fill_def init_ptr_n_def init_substr_def init_ptr_def
  allocVal_def basic_string_alloc_def basic_string_fill_def basic_string_substr_def
  basic_string_ptr_n_def basic_string_ptr_def tidy_def destructor_def size_of_def
  capacity_def shrink_to_fit_def reserve_def buffer_def allocations_def new_allocator_def
  c_string_def

lemmas word_cmp = word_le_nat_alt word_less_nat_alt

lemma max_size_char: "max_size TYPE(8) = 0x7FFFFFFFFFFFFFFF"
  by (simp add: width_defs)

lemma hello_world_constructed:
  "basic_string_ptr (c_string ''hello world'') (new_allocator 0) = Inr hello_world"
  by (simp add: hello_world_def width_defs memory_defs string_defs Let_def word_cmp)

lemma fill_20_constructed:
  "basic_string_fill 20 97 (new_allocator (32 + room)) = Inr (fill_20 room)"
  by (simp add: fill_20_def width_defs memory_defs string_defs Let_def word_cmp)

lemma fill_47_constructed: "basic_string_fill 47 97 (new_allocator 48) = Inr fill_47"
  by (simp add: fill_47_def width_defs memory_defs string_defs Let_def word_cmp)

lemma max_size_le_ptrdiff_max: "max_size t \<le> 0x7FFFFFFFFFFFFFFF"
  by (simp add: max_size_def)

lemma unat_max_size_bound: "unat (max_size t) < 2 ^ 63"
proof -
  have "unat (max_size t) \<le> unat (0x7FFFFFFFFFFFFFFF :: 64 word)"
    using max_size_le_ptrdiff_max [of t] by (simp only: word_le_nat_alt)
  then show ?thesis by simp
qed

lemma sizeof_cases:
  assumes "1 \<le> sizeof_value_type TYPE('c::len)" "sizeof_value_type TYPE('c) \<le> 16"
  shows "sizeof_value_type TYPE('c) \<in> {1,2,3,4,5,6,7,8,9,10,11,12,13,14,15,16}"
proof -
  have "\<And>n::nat. 1 \<le> n \<Longrightarrow> n \<le> 16 \<Longrightarrow> n \<in> {1,2,3,4,5,6,7,8,9,10,11,12,13,14,15,16}"
    by (simp only: insert_iff empty_iff) arith
  then show ?thesis using assms by blast
qed

lemma max_size_large:
  assumes "1 \<le> sizeof_value_type TYPE('c::len)" "sizeof_value_type TYPE('c) \<le> 16"
  shows "15 < max_size TYPE('c)"
  using sizeof_cases [OF assms] by (auto simp: max_size_def word_cmp)

lemma kBufferSize_small:
  assumes "1 \<le> sizeof_value_type TYPE('c::len)" "sizeof_value_type TYPE('c) \<le> 16"
  shows "1 \<le> kBufferSize TYPE('c) \<and> kBufferSize TYPE('c) \<le> 16"
  using sizeof_cases [OF assms] by (auto simp: kBufferSize_def word_cmp)

lemma initEmpty_getAlloc: "getAlloc (initEmpty s) = getAlloc s"
  by (simp add: initEmpty_def Traits_assign_def store_def)

lemma overwrite_then_terminate:
  assumes "length xs + 1 \<le> length b"
  shows "overwrite (overwrite b 0 xs) (length xs) [y] = xs @ y # drop (length xs + 1) b"
proof -
  have 1: "overwrite b 0 xs = xs @ drop (length xs) b"
    using assms by (simp add: overwrite_def)
  show ?thesis
    unfolding 1 using assms by (simp add: overwrite_def)
qed

lemma overwrite_fill:
  assumes "c + 1 \<le> n"
  shows "overwrite (overwrite (replicate n None) 0 (replicate c x)) c [y]
           = replicate c x @ y # replicate (n - c - 1) None"
  using assms overwrite_then_terminate [of "replicate c x" "replicate n None" y] by simp

section \<open>Substring construction\<close>

text \<open>
  The copy primitive on a freshly initialised string: a \<open>count\<close> below the inline
  capacity is copied into the inline array, without a call on the allocator.
  Substring construction hands it the buffer of the source from index 0, so
  its result is the prefix of the source of the clamped length, whatever \<open>pos\<close>
  is.
\<close>

lemma init_ptr_n_inline:
  fixes a :: "'c::len word allocator"
  assumes "count < kBufferSize TYPE('c)"
  shows "\<exists>r. init_ptr_n str count (initEmpty (allocVal a)) = Inr r \<and> getAlloc r = a \<and>
           size_of r = count \<and>
           take (unat count + 1) (buffer r)
             = take (unat count) str @ replicate (unat count - length str) None @ [Some 0]"
proof -
  let ?s = "initEmpty (allocVal a) :: 'c word basic_string"
  let ?k = "unat (kBufferSize TYPE('c))"
  let ?xs = "take (unat count) str @ replicate (unat count - length str) None"
  have pos: "1 \<le> kBufferSize TYPE('c)"
    using assms by (simp add: word_cmp)
  then have kk: "1 \<le> ?k" by (simp add: word_cmp)
  have k: "unat (kBufferSize TYPE('c) - 1) = ?k - 1"
    using pos by (simp add: unat_sub)
  have le: "count \<le> kBufferSize TYPE('c) - 1"
    using assms k by (simp add: word_cmp)
  have short: "kBufferSize TYPE('c) - 1 < kBufferSize TYPE('c)"
    using assms k by (simp add: word_cmp)
  have s: "?s = \<lparr>getAlloc = a,
                 getVal = \<lparr>size_m = 0, capacity_m = kBufferSize TYPE('c) - 1,
                           data_m = Buf (replicate ?k (Some 0))\<rparr>\<rparr>"
    using kk by (simp add: initEmpty_def allocVal_def StringValue_ctor_def Traits_assign_def
        store_def buf_cells_def overwrite_def replicate_append_same
        flip: replicate_Suc)
  have len: "length ?xs = unat count" by simp
  have m: "min (length str) (unat count) + (unat count - length str) = unat count" by simp
  have fit: "length ?xs + 1 \<le> length (replicate ?k (Some (0 :: 'c word)))"
    using assms by (simp add: word_cmp)
  have w: "overwrite (overwrite (replicate ?k (Some (0 :: 'c word))) 0 ?xs) (unat count) [Some 0]
             = ?xs @ Some 0 # drop (unat count + 1) (replicate ?k (Some 0))"
    using overwrite_then_terminate [OF fit, of "Some 0"] by (simp only: len)
  show ?thesis
    using le short
    by (simp add: s init_ptr_n_def getPtr_def isShortString_def Let_def Traits_assign_def
          Traits_move_def store_def buf_cells_def size_of_def buffer_def deref_def w m)
qed

lemma basic_string_ptr_n_short_no_allocation:
  fixes a :: "'c::len word allocator"
  assumes "count < kBufferSize TYPE('c)"
  shows "\<exists>r. basic_string_ptr_n str count a = Inr r \<and> getAlloc r = a"
  using init_ptr_n_inline [OF assms, of str a] by (auto simp: basic_string_ptr_n_def)

lemma basic_string_substr_is_prefix:
  fixes a :: "'c::len word allocator" and rhs :: "'c word basic_string"
  assumes "pos \<le> size_of rhs"
    and "min count (size_of rhs - pos) < kBufferSize TYPE('c)"
  shows "\<exists>r. basic_string_substr rhs pos count a = Inr r \<and>
           size_of r = min count (size_of rhs - pos) \<and>
           take (unat (size_of r) + 1) (buffer r)
             = take (unat (size_of r)) (buffer rhs)
               @ replicate (unat (size_of r) - length (buffer rhs)) None @ [Some 0]"
proof -
  have ok: "checkIndex (getVal rhs) pos = Inr ()"
    using assms(1) by (simp add: checkIndex_def size_of_def word_cmp)
  from init_ptr_n_inline [OF assms(2), of "buffer rhs" a]
  show ?thesis
    by (auto simp: basic_string_substr_def init_substr_def ok buffer_def size_of_def)
qed

text \<open>
  C1. Substring construction validates \<open>pos\<close> and clamps \<open>count\<close>, but hands
  \<^verbatim>\<open>rhs.getVal().getPtr()\<close>, the start of the source, to the copy primitive, not
  \<^verbatim>\<open>getPtr() + pos\<close>. For \<^verbatim>\<open>s = "hello world"\<close>, \<open>pos = 6\<close>, \<open>count = 5\<close> the
  result is \<^verbatim>\<open>"hello"\<close> where the claim has \<^verbatim>\<open>"world"\<close>; \<open>pos = 11\<close> gives the empty
  string and \<open>pos = 12\<close> raises OutOfRange, as claimed.
\<close>

theorem substring_copies_from_index_zero:
  "(case basic_string_substr hello_world 6 5 (new_allocator 0) of
      Inr r \<Rightarrow> size_of r = 5 \<and> take 6 (buffer r) = c_string ''hello''
    | Inl _ \<Rightarrow> False) \<and>
   (case basic_string_substr hello_world 11 5 (new_allocator 0) of
      Inr r \<Rightarrow> size_of r = 0 \<and> take 1 (buffer r) = c_string []
    | Inl _ \<Rightarrow> False) \<and>
   (case basic_string_substr hello_world 12 5 (new_allocator 0) of
      Inr r \<Rightarrow> False
    | Inl (e, _) \<Rightarrow> e = OutOfRange)"
  by (simp add: hello_world_def width_defs memory_defs string_defs Let_def word_cmp)

section \<open>Fill construction\<close>

text \<open>
  The fill constructor is the one constructor that does not call \<^verbatim>\<open>initEmpty()\<close>
  before \<^verbatim>\<open>init\<close>: the capacity is still the 0 of \<^verbatim>\<open>StringValue()\<close>, so every
  \<open>count > 0\<close> takes the growth path. For \<open>0 < count\<close> below the inline
  capacity the growth path stores a capacity below the inline capacity next to
  a heap pointer (C2, C3 and C4 below, C8 further on). From the inline capacity
  on, the result is as specified: heap-backed, \<open>count\<close> copies of \<open>ch\<close> and the
  sentinel.
\<close>

lemma capacityGrowth_fresh:
  fixes a :: "'c::len word allocator"
  assumes "count < max_size TYPE('c)"
  shows "count \<le> capacityGrowth (allocVal a :: 'c word basic_string) count"
    and "capacityGrowth (allocVal a :: 'c word basic_string) count \<le> max_size TYPE('c)"
proof -
  let ?m = "max_size TYPE('c)" and ?masked = "count OR kBufferMask TYPE('c)"
  have z: "size_m (getVal (allocVal a :: 'c word basic_string)) = 0"
    by (simp add: allocVal_def StringValue_ctor_def)
  have g: "capacityGrowth (allocVal a :: 'c word basic_string) count
             = (if ?masked > ?m then ?m else ?masked)"
    by (simp add: capacityGrowth_def z Let_def)
  have "count \<le> ?masked" by (rule le_word_or2)
  then show "count \<le> capacityGrowth (allocVal a :: 'c word basic_string) count"
    using assms by (auto simp: g)
  show "capacityGrowth (allocVal a :: 'c word basic_string) count \<le> ?m"
    by (auto simp: g)
qed

lemma basic_string_fill_heap:
  fixes a :: "'c::len word allocator"
  assumes width: "1 \<le> sizeof_value_type TYPE('c)" "sizeof_value_type TYPE('c) \<le> 16"
    and range: "kBufferSize TYPE('c) \<le> count" "count < max_size TYPE('c)"
    and room: "unat (capacityGrowth (allocVal a :: 'c word basic_string) count + 1) \<le> available a"
  shows "\<exists>r. basic_string_fill count ch a = Inr r \<and> size_of r = count \<and>
           count \<le> capacity r \<and> \<not> isShortString (getVal r) \<and>
           take (unat count + 1) (buffer r) = replicate (unat count) (Some ch) @ [Some 0]"
proof -
  let ?s = "allocVal a :: 'c word basic_string"
  let ?cap = "capacityGrowth ?s count"
  let ?n = "unat (?cap + 1)"
  note cg = capacityGrowth_fresh [OF range(2), of a]
  have "unat ?cap < 2 ^ 63"
    using cg(2) unat_max_size_bound [of "TYPE('c)"] by (simp add: word_cmp)
  then have "unat ?cap + unat (1 :: size_type) < 2 ^ 64" by simp
  then have n: "?n = unat ?cap + 1"
    by (simp add: unat_add_lem [THEN iffD1])
  have cn: "unat count + 1 \<le> ?n" using cg(1) n by (simp add: word_cmp)
  have pos: "\<not> count \<le> 0"
    using kBufferSize_small [OF width] range(1) by (auto simp: word_cmp)
  have long: "\<not> ?cap < kBufferSize TYPE('c)"
    using cg(1) range(1) by (simp add: word_cmp)
  have kpos: "kBufferSize TYPE('c) \<noteq> 0"
    using kBufferSize_small [OF width] by (auto simp: word_cmp)
  have nomax: "\<not> max_size TYPE('c) \<le> count" using range(2) by (simp add: word_cmp)
  have al: "allocate ?n a = (Inr (fresh a),
       a\<lparr>blocks := (blocks a)(fresh a \<mapsto> replicate ?n None), fresh := Suc (fresh a),
         available := available a - ?n, trace := trace a @ [Allocate (fresh a) ?n]\<rparr>)"
    using room by (simp add: allocate_def)
  have ga: "getAlloc ?s = a" "capacity_m (getVal ?s) = 0"
    by (simp_all add: allocVal_def StringValue_ctor_def)
  show ?thesis
    using pos long nomax cn kpos
    by (simp add: basic_string_fill_def init_fill_def reallocAndAssign_def checkLength_def
          ga al Let_def fill_writer_def Traits_assign_def Traits_assign_n_def store_def
          size_of_def capacity_def isShortString_def buffer_def getPtr_def data_ptr_def deref_def
          overwrite_fill cg(1))
qed

text \<open>
  C2. \<^verbatim>\<open>basic_string<char>(1, 'a')\<close> ends with capacity 15, below the inline
  capacity 16, so \<^verbatim>\<open>isShortString()\<close> holds, while the active member of the union
  is the heap pointer: capacity and representation disagree in a state that
  construction reaches.
\<close>

theorem fill_one_char_short_capacity_heap_pointer:
  "(case basic_string_fill 1 (97 :: 8 word) (new_allocator 16) of
      Inr r \<Rightarrow> capacity r = 15 \<and> kBufferSize TYPE(8) = 16 \<and> isShortString (getVal r) \<and>
               data_m (getVal r) = Ptr 0
    | Inl _ \<Rightarrow> False)"
  by (simp add: width_defs memory_defs string_defs Let_def word_cmp)

text \<open>
  C3. \<^verbatim>\<open>basic_string<char>(1, 'a')\<close>, with \<open>1 < kBufferSize\<close>, calls \<^verbatim>\<open>allocate\<close>
  once, for 16 elements: the allocation count of the instrumented allocator goes
  from 0 to 1.
\<close>

theorem fill_one_char_allocates:
  "(1 :: size_type) < kBufferSize TYPE(8) \<and>
   allocations (trace (new_allocator 16 :: 8 word allocator)) = 0 \<and>
   (case basic_string_fill 1 (97 :: 8 word) (new_allocator 16) of
      Inr r \<Rightarrow> allocations (trace (getAlloc r)) = 1 \<and>
               trace (getAlloc r) = [Allocate 0 16, Store 0 0 1, Store 0 1 1]
    | Inl _ \<Rightarrow> False)"
  by (simp add: width_defs memory_defs string_defs Let_def word_cmp)

text \<open>
  C4. \<^verbatim>\<open>basic_string<char>(1, 'a')\<close> has size 1, but its buffer, the cells at
  \<^verbatim>\<open>getPtr()\<close>, is the inline array overlaid by the heap pointer: index 0 does
  not hold \<^verbatim>\<open>'a'\<close> and index 1 does not hold the sentinel. The characters were
  written to the heap block, which \<^verbatim>\<open>getPtr()\<close> no longer reaches.
\<close>

theorem fill_one_char_buffer_indeterminate:
  "(1 :: size_type) < max_size TYPE(8) \<and>
   (case basic_string_fill 1 (97 :: 8 word) (new_allocator 16) of
      Inr r \<Rightarrow> size_of r = 1 \<and> getPtr (getVal r) = Inline \<and>
               buffer r ! 0 = None \<and> buffer r ! 1 = None \<and>
               blocks (getAlloc r) 0 = Some (Some 97 # Some 0 # replicate 14 None)
    | Inl _ \<Rightarrow> False)"
  by (simp add: width_defs memory_defs string_defs Let_def word_cmp)

section \<open>Reserve\<close>

lemma reserve_identity: "reserve n s = s"
  by (simp add: reserve_def shrink_to_fit_def Let_def)

text \<open>
  C5. On an empty string, whose capacity is 15, \<^verbatim>\<open>reserve(16)\<close> reaches the branch
  commented \<^verbatim>\<open>reallocate memory if newCapacity > oldCapacity\<close>, which reallocates
  nothing: the capacity is still 15, below the 16 asked for.
\<close>

theorem reserve_beyond_capacity_keeps_capacity:
  "capacity (basic_string_alloc (new_allocator 32) :: 8 word basic_string) = 15 \<and>
   capacity (reserve 16 (basic_string_alloc (new_allocator 32) :: 8 word basic_string)) = 15 \<and>
   reserve 16 (basic_string_alloc (new_allocator 32) :: 8 word basic_string)
     = basic_string_alloc (new_allocator 32)"
  by (simp add: width_defs memory_defs string_defs Let_def)

section \<open>The growth path\<close>

lemma allocate_error: "allocate n a = (Inl e, a') \<Longrightarrow> e = AllocationFailure"
  by (auto simp: allocate_def split: if_splits)

lemma reallocAndAssign_too_long:
  "max_size TYPE('c) \<le> newSize \<Longrightarrow>
     reallocAndAssign newSize func (s :: 'c::len word basic_string) = Inl (LengthError, s)"
  by (simp add: reallocAndAssign_def checkLength_def)

lemma reallocAndAssign_in_range:
  fixes s :: "'c::len word basic_string"
  assumes "newSize < max_size TYPE('c)"
  shows "reallocAndAssign newSize func s \<noteq> Inl (LengthError, st)"
proof -
  obtain r a where al: "allocate (unat (capacityGrowth s newSize + 1)) (getAlloc s) = (r, a)"
    by (cases "allocate (unat (capacityGrowth s newSize + 1)) (getAlloc s)")
  show ?thesis
  proof (cases r)
    case (Inl e)
    then have "e = AllocationFailure" using al allocate_error by blast
    then show ?thesis using assms al Inl
      by (simp add: reallocAndAssign_def checkLength_def Let_def)
  next
    case (Inr p)
    then show ?thesis using assms al
      by (simp add: reallocAndAssign_def checkLength_def Let_def)
  qed
qed

lemma basic_string_fill_too_long:
  fixes a :: "'c::len word allocator"
  assumes "1 \<le> sizeof_value_type TYPE('c)" "sizeof_value_type TYPE('c) \<le> 16"
  shows "basic_string_fill (max_size TYPE('c)) ch a = Inl (LengthError, allocVal a)"
proof -
  have "\<not> max_size TYPE('c) \<le> 0"
    using max_size_large [OF assms] by (simp add: word_cmp)
  then have "\<not> max_size TYPE('c) \<le> capacity_m (getVal (allocVal a :: 'c word basic_string))"
    by (simp add: allocVal_def StringValue_ctor_def)
  then show ?thesis
    by (simp add: basic_string_fill_def init_fill_def reallocAndAssign_too_long)
qed

lemma basic_string_ptr_n_too_long:
  fixes a :: "'c::len word allocator"
  assumes "1 \<le> sizeof_value_type TYPE('c)" "sizeof_value_type TYPE('c) \<le> 16"
  shows "basic_string_ptr_n str (max_size TYPE('c)) a = Inl (LengthError, initEmpty (allocVal a))"
proof -
  have c: "capacity_m (getVal (initEmpty (allocVal a) :: 'c word basic_string))
             = kBufferSize TYPE('c) - 1"
    by (simp add: initEmpty_def Traits_assign_def store_def)
  have "unat (kBufferSize TYPE('c) - 1) \<le> 15"
    using kBufferSize_small [OF assms] by (auto simp: word_cmp unat_sub)
  then have "\<not> max_size TYPE('c) \<le> kBufferSize TYPE('c) - 1"
    using max_size_large [OF assms] by (simp add: word_cmp)
  then show ?thesis
    by (simp add: basic_string_ptr_n_def init_ptr_n_def c reallocAndAssign_too_long)
qed

text \<open>
  C7. \<^verbatim>\<open>reallocAndAssign\<close> raises LengthError exactly when
  \<open>newSize \<ge> max_size()\<close>, and the object and its allocator are then as they
  were before the call: nothing was allocated, no call was made on the
  allocator. In particular, for every character type of 1 to 16 bytes, the fill
  constructor and the pointer constructor with \<open>count = max_size()\<close> raise
  LengthError with the allocator they were given untouched.
\<close>

theorem length_error_before_allocation:
  fixes s :: "'c::len word basic_string" and a :: "'c word allocator"
  shows "(reallocAndAssign newSize func s = Inl (LengthError, s)
            \<longleftrightarrow> max_size TYPE('c) \<le> newSize) \<and>
         (\<forall>st. reallocAndAssign newSize func s = Inl (LengthError, st) \<longrightarrow> st = s) \<and>
         (1 \<le> sizeof_value_type TYPE('c) \<and> sizeof_value_type TYPE('c) \<le> 16 \<longrightarrow>
            basic_string_fill (max_size TYPE('c)) ch a = Inl (LengthError, allocVal a) \<and>
            getAlloc (allocVal a) = a \<and>
            basic_string_ptr_n str (max_size TYPE('c)) a
              = Inl (LengthError, initEmpty (allocVal a)) \<and>
            getAlloc (initEmpty (allocVal a) :: 'c word basic_string) = a)"
proof -
  have 1: "reallocAndAssign newSize func s = Inl (LengthError, st) \<Longrightarrow> max_size TYPE('c) \<le> newSize"
    for st
    using reallocAndAssign_in_range [where newSize = newSize and s = s and func = func and st = st]
    by (auto simp: not_less [symmetric])
  have 2: "max_size TYPE('c) \<le> newSize \<Longrightarrow> reallocAndAssign newSize func s = Inl (LengthError, s)"
    by (rule reallocAndAssign_too_long)
  have 3: "st = s" if "reallocAndAssign newSize func s = Inl (LengthError, st)" for st
    using 2 [OF 1 [OF that]] that by simp
  show ?thesis
    using 1 2 3 basic_string_fill_too_long [where ?'c = 'c] basic_string_ptr_n_too_long [where ?'c = 'c]
    by (auto simp: initEmpty_getAlloc allocVal_def)
qed

text \<open>
  C7 at \<^verbatim>\<open>char\<close>: growing \<^verbatim>\<open>string(20, 'a')\<close> to \<open>max_size()\<close> raises LengthError
  and leaves it as it was, growing it to 40 does not raise LengthError, and
  \<^verbatim>\<open>string(max_size(), 'a')\<close> raises LengthError with an empty allocator trace.
\<close>

theorem length_error_before_allocation_witness:
  "max_size TYPE(8) \<le> (0x7FFFFFFFFFFFFFFF :: size_type) \<and>
   reallocAndAssign 0x7FFFFFFFFFFFFFFF (fill_writer 98) (fill_20 68) = Inl (LengthError, fill_20 68) \<and>
   reallocAndAssign 40 (fill_writer 98) (fill_20 68) \<noteq> Inl (LengthError, fill_20 68) \<and>
   1 \<le> sizeof_value_type TYPE(8) \<and> sizeof_value_type TYPE(8) \<le> 16 \<and>
   basic_string_fill (max_size TYPE(8)) (97 :: 8 word) (new_allocator 0)
     = Inl (LengthError, allocVal (new_allocator 0)) \<and>
   trace (getAlloc (allocVal (new_allocator 0) :: 8 word basic_string)) = []"
  using length_error_before_allocation
          [where ?'c = 8 and newSize = "0x7FFFFFFFFFFFFFFF" and func = "fill_writer 98"
             and s = "fill_20 68" and ch = 97 and a = "new_allocator 0"]
        length_error_before_allocation
          [where ?'c = 8 and newSize = 40 and func = "fill_writer 98" and s = "fill_20 68"]
  by (simp add: width_defs new_allocator_def word_cmp)

lemma store_Heap:
  "getVal (store (Heap p) off xs s) = getVal s"
  "trace (getAlloc (store (Heap p) off xs s)) = trace (getAlloc s) @ [Store p off (length xs)]"
  "blocks (getAlloc (store (Heap p) off xs s)) q = None \<longleftrightarrow> blocks (getAlloc s) q = None"
  by (auto simp: store_def split: option.splits)

lemma fill_writer_Heap:
  "getVal (fill_writer ch (Heap p) n s) = getVal s"
  "trace (getAlloc (fill_writer ch (Heap p) n s))
     = trace (getAlloc s) @ [Store p 0 (unat n), Store p (unat n) 1]"
  "blocks (getAlloc (fill_writer ch (Heap p) n s)) q = None \<longleftrightarrow> blocks (getAlloc s) q = None"
  by (simp_all add: fill_writer_def Traits_assign_def Traits_assign_n_def store_Heap)

lemma copy_writer_Heap:
  "getVal (copy_writer src (Heap p) n s) = getVal s"
  "trace (getAlloc (copy_writer src (Heap p) n s))
     = trace (getAlloc s) @ [Store p 0 (unat n), Store p (unat n) 1]"
  "blocks (getAlloc (copy_writer src (Heap p) n s)) q = None \<longleftrightarrow> blocks (getAlloc s) q = None"
  by (simp_all add: copy_writer_def Traits_assign_def Traits_move_def store_Heap)

lemma source_writer:
  assumes "func = fill_writer ch \<or> func = copy_writer src"
  shows "getVal (func (Heap p) n s) = getVal s"
    and "trace (getAlloc (func (Heap p) n s))
           = trace (getAlloc s) @ [Store p 0 (unat n), Store p (unat n) 1]"
    and "blocks (getAlloc (func (Heap p) n s)) q = None \<longleftrightarrow> blocks (getAlloc s) q = None"
  using assms fill_writer_Heap [of ch p n s] copy_writer_Heap [of src p n s] by auto

text \<open>
  C6. \<^verbatim>\<open>reallocAndAssign\<close> with either writer of the source (fill or copy). When
  it returns, the trace of the allocator has grown by exactly: the allocation of
  the new block, the writer's stores of cells \<open>0 .. newSize - 1\<close> and of the
  sentinel at \<open>newSize\<close> into the new block, and only then, if the old capacity
  was at least the inline capacity, the deallocation of the old \<^verbatim>\<open>data.ptr\<close>
  with size old capacity + 1. The object then points to the new block, which is
  live (given that the old pointer is not the block the allocator hands out
  next). When it raises, with LengthError or because the allocation failed, the
  size, the capacity, the active member, the blocks and the buffer are those
  from before the call, and nothing was deallocated.
\<close>

theorem reallocAndAssign_frees_last:
  fixes s :: "'c::len word basic_string"
  assumes "func = fill_writer ch \<or> func = copy_writer src"
  shows "case reallocAndAssign newSize func s of
      Inl (e, s') \<Rightarrow>
        getVal s' = getVal s \<and> blocks (getAlloc s') = blocks (getAlloc s) \<and>
        buffer s' = buffer s \<and>
        trace (getAlloc s') = trace (getAlloc s) @
          (if e = AllocationFailure
           then [AllocateFailed (unat (capacityGrowth s newSize + 1))] else [])
    | Inr s' \<Rightarrow>
        trace (getAlloc s') = trace (getAlloc s) @
          [Allocate (fresh (getAlloc s)) (unat (capacityGrowth s newSize + 1)),
           Store (fresh (getAlloc s)) 0 (unat newSize),
           Store (fresh (getAlloc s)) (unat newSize) 1] @
          (if capacity_m (getVal s) \<ge> kBufferSize TYPE('c)
           then [Deallocate (data_ptr (data_m (getVal s))) (unat (capacity_m (getVal s) + 1))]
           else []) \<and>
        getVal s' = \<lparr>size_m = newSize, capacity_m = capacityGrowth s newSize,
                     data_m = Ptr (fresh (getAlloc s))\<rparr> \<and>
        (data_m (getVal s) \<noteq> Ptr (fresh (getAlloc s)) \<longrightarrow>
           blocks (getAlloc s') (fresh (getAlloc s)) \<noteq> None)"
proof (cases "max_size TYPE('c) \<le> newSize")
  case True
  then show ?thesis by (simp add: reallocAndAssign_def checkLength_def)
next
  case False
  let ?n = "unat (capacityGrowth s newSize + 1)"
  show ?thesis
  proof (cases "?n \<le> available (getAlloc s)")
    case full: False
    then show ?thesis using False
      by (simp add: reallocAndAssign_def checkLength_def allocate_def Let_def buffer_def
            deref_def split: pointer.splits)
  next
    case True
    let ?p = "fresh (getAlloc s)"
    let ?a = "(getAlloc s)\<lparr>blocks := (blocks (getAlloc s))(?p \<mapsto> replicate ?n None),
                fresh := Suc ?p, available := available (getAlloc s) - ?n,
                trace := trace (getAlloc s) @ [Allocate ?p ?n]\<rparr>"
    let ?s1 = "s\<lparr>getAlloc := ?a,
                 getVal := (getVal s)\<lparr>size_m := newSize, capacity_m := capacityGrowth s newSize\<rparr>\<rparr>"
    let ?s2 = "func (Heap ?p) newSize ?s1"
    note w = source_writer [OF assms, of ?p newSize ?s1]
    have live: "blocks (getAlloc ?s2) ?p \<noteq> None"
      by (simp add: w(3))
    have r: "reallocAndAssign newSize func s =
       Inr ((if capacity_m (getVal s) \<ge> kBufferSize TYPE('c)
             then ?s2\<lparr>getAlloc := deallocate (data_ptr (data_m (getVal s)))
                          (unat (capacity_m (getVal s) + 1)) (getAlloc ?s2)\<rparr>
             else ?s2)\<lparr>getVal := \<lparr>size_m = newSize, capacity_m = capacityGrowth s newSize,
                     data_m = Ptr ?p\<rparr>\<rparr>)"
      using False True
      by (simp add: reallocAndAssign_def checkLength_def allocate_def Let_def w(1))
    have keep: "blocks (deallocate (data_ptr (data_m (getVal s))) k (getAlloc ?s2)) ?p \<noteq> None"
      if "data_m (getVal s) \<noteq> Ptr ?p" for k
      using that live by (cases "data_m (getVal s)") (simp_all add: deallocate_def data_ptr_def)
    show ?thesis
      unfolding r using live keep
      by (simp add: w(2) deallocate_def data_ptr_def split: pointer.splits Data.splits)
  qed
qed

text \<open>
  C6 at \<^verbatim>\<open>string(20, 'a')\<close> (heap block 0 of 32 elements), grown to 40 with the
  fill writer. With room for 68 more elements: block 1 of 48 elements is
  allocated and written, then block 0 is deallocated with size 32. With room
  for 8 only: the allocation fails and the string is as before.
\<close>

theorem reallocAndAssign_frees_last_witness:
  "(case reallocAndAssign 40 (fill_writer 98) (fill_20 68) of
      Inr s' \<Rightarrow>
        trace (getAlloc s') =
          [Allocate 0 32, Store 0 0 20, Store 0 20 1,
           Allocate 1 48, Store 1 0 40, Store 1 40 1, Deallocate (Heap 0) 32] \<and>
        getVal s' = \<lparr>size_m = 40, capacity_m = 47, data_m = Ptr 1\<rparr> \<and>
        blocks (getAlloc s') 1 \<noteq> None
    | Inl _ \<Rightarrow> False) \<and>
   (case reallocAndAssign 40 (fill_writer 98) (fill_20 8) of
      Inr _ \<Rightarrow> False
    | Inl (e, s') \<Rightarrow>
        e = AllocationFailure \<and> getVal s' = getVal (fill_20 8) \<and>
        blocks (getAlloc s') = blocks (getAlloc (fill_20 8)) \<and>
        trace (getAlloc s') = [Allocate 0 32, Store 0 0 20, Store 0 20 1, AllocateFailed 48])"
  using reallocAndAssign_frees_last
          [where ?'c = 8 and func = "fill_writer 98" and ch = 98 and newSize = 40
             and s = "fill_20 68"]
        reallocAndAssign_frees_last
          [where ?'c = 8 and func = "fill_writer 98" and ch = 98 and newSize = 40
             and s = "fill_20 8"]
  by (simp add: fill_20_def width_defs memory_defs string_defs Let_def word_cmp)

section \<open>Destruction\<close>

lemma fill_20_released:
  "trace (getAlloc (destructor (fill_20 room)))
     = [Allocate 0 32, Store 0 0 20, Store 0 20 1, Deallocate (Heap 0) 32] \<and>
   blocks (getAlloc (destructor (fill_20 room))) = Map.empty"
  by (simp add: fill_20_def width_defs memory_defs string_defs Let_def word_cmp)

text \<open>
  C8. Destroying \<^verbatim>\<open>basic_string<char>(1, 'a')\<close>: the constructor allocated block
  0 of 16 elements, the capacity is 15, so \<^verbatim>\<open>tidy()\<close> finds a short string and
  deallocates nothing. The trace after the destructor holds the allocation and
  no deallocation, and block 0 is still live: the block is leaked.
\<close>

theorem fill_one_char_block_leaked:
  "(case basic_string_fill 1 (97 :: 8 word) (new_allocator 16) of
      Inr r \<Rightarrow>
        trace (getAlloc (destructor r)) = [Allocate 0 16, Store 0 0 1, Store 0 1 1] \<and>
        blocks (getAlloc (destructor r)) 0 = Some (Some 97 # Some 0 # replicate 14 None)
    | Inl _ \<Rightarrow> False)"
  by (simp add: width_defs memory_defs string_defs Let_def word_cmp)

section \<open>Capacity growth\<close>

lemma growth_no_wrap:
  fixes old m :: size_type
  assumes "old \<le> m" and "unat m < 2 ^ 63" and "\<not> old > m - old div 2"
  shows "unat (old + old div 2) = unat old + unat old div 2" and "old + old div 2 \<le> m"
proof -
  have d: "unat (old div 2) = unat old div 2" by (simp add: unat_div)
  have o: "unat old \<le> unat m" using assms(1) by (simp add: word_le_nat_alt)
  have le: "old div 2 \<le> m" using d o by (simp add: word_le_nat_alt)
  have sub: "unat (m - old div 2) = unat m - unat old div 2"
    using le d by (simp add: unat_sub)
  have "unat old \<le> unat m - unat old div 2"
    using assms(3) sub by (simp add: word_cmp)
  then have s: "unat old + unat old div 2 \<le> unat m" using o by linarith
  then have "unat old + unat (old div 2) < 2 ^ 64" using assms(2) d by simp
  then show 1: "unat (old + old div 2) = unat old + unat old div 2"
    using d by (simp add: unat_add_lem [THEN iffD1])
  show "old + old div 2 \<le> m" using 1 s by (simp add: word_le_nat_alt)
qed

text \<open>
  C9, as stated, fails: \<^verbatim>\<open>string(47, 'a')\<close> has size 47; a request for 48 meets
  the no-overflow condition, its mask-rounded value 63 is below \<open>max_size()\<close>, and
  \<^verbatim>\<open>capacityGrowth(48)\<close> returns \<open>max 63 (47 + 47 div 2) = 70\<close>, which is less than
  \<open>1.5 \<times> 47 = 70.5\<close>.
\<close>

theorem capacityGrowth_below_one_and_a_half:
  "size_m (getVal fill_47) \<le> max_size TYPE(8) - size_m (getVal fill_47) div 2 \<and>
   48 OR kBufferMask TYPE(8) \<le> max_size TYPE(8) \<and>
   capacityGrowth fill_47 48 = 70 \<and>
   real (unat (capacityGrowth fill_47 48)) < 1.5 * real (unat (size_m (getVal fill_47)))"
  by (simp add: fill_47_def width_defs capacityGrowth_def Let_def word_cmp)

text \<open>
  C9, amended. For every string whose size is at most \<open>max_size()\<close> and every
  requested size: the capacity that \<^verbatim>\<open>capacityGrowth\<close> returns never exceeds
  \<open>max_size()\<close>; and when the mask-rounded request does not exceed \<open>max_size()\<close>
  and \<open>size \<le> max_size() - size / 2\<close>, it is at least \<open>size + size / 2\<close> with the
  integer division of the code (\<open>1.5 \<times> size\<close> rounded down), computed without
  wrap-around.
\<close>

theorem capacityGrowth_bounds:
  fixes s :: "'c::len word basic_string"
  assumes "size_m (getVal s) \<le> max_size TYPE('c)"
  shows "capacityGrowth s newSize \<le> max_size TYPE('c) \<and>
     (newSize OR kBufferMask TYPE('c) \<le> max_size TYPE('c) \<and>
      size_m (getVal s) \<le> max_size TYPE('c) - size_m (getVal s) div 2 \<longrightarrow>
        unat (size_m (getVal s)) + unat (size_m (getVal s)) div 2
          \<le> unat (capacityGrowth s newSize))"
proof -
  let ?old = "size_m (getVal s)" and ?m = "max_size TYPE('c)"
  let ?masked = "newSize OR kBufferMask TYPE('c)"
  show ?thesis
  proof (cases "?masked > ?m \<or> ?old > ?m - ?old div 2")
    case True
    then show ?thesis by (auto simp: capacityGrowth_def Let_def)
  next
    case False
    then have nm: "\<not> ?masked > ?m" and no: "\<not> ?old > ?m - ?old div 2" by auto
    have eq: "capacityGrowth s newSize = max ?masked (?old + ?old div 2)"
      using nm no by (simp add: capacityGrowth_def Let_def)
    note g = growth_no_wrap [OF assms unat_max_size_bound no]
    have "max ?masked (?old + ?old div 2) \<le> ?m" using nm g(2) by simp
    moreover have "unat ?old + unat ?old div 2 \<le> unat (max ?masked (?old + ?old div 2))"
      using g(1) by (simp add: max_def word_le_nat_alt)
    ultimately show ?thesis using eq by simp
  qed
qed

text \<open>
  C9, amended, at \<^verbatim>\<open>string(47, 'a')\<close> and a request for 48: the conditions hold, and
  the returned capacity is at most \<open>max_size()\<close> and at least \<open>47 + 23 = 70\<close>.
\<close>

theorem capacityGrowth_bounds_witness:
  "size_m (getVal fill_47) \<le> max_size TYPE(8) \<and>
   48 OR kBufferMask TYPE(8) \<le> max_size TYPE(8) \<and>
   size_m (getVal fill_47) \<le> max_size TYPE(8) - size_m (getVal fill_47) div 2 \<and>
   capacityGrowth fill_47 48 \<le> max_size TYPE(8) \<and>
   70 \<le> unat (capacityGrowth fill_47 48)"
proof -
  have h: "size_m (getVal fill_47) \<le> max_size TYPE(8)"
    by (simp add: fill_47_def width_defs word_cmp)
  have c: "48 OR kBufferMask TYPE(8) \<le> max_size TYPE(8) \<and>
           size_m (getVal fill_47) \<le> max_size TYPE(8) - size_m (getVal fill_47) div 2"
    by (simp add: fill_47_def width_defs word_cmp)
  have u: "unat (size_m (getVal fill_47)) + unat (size_m (getVal fill_47)) div 2 = 70"
    by (simp add: fill_47_def)
  show ?thesis
    using h c u capacityGrowth_bounds [OF h, of 48] by simp
qed

section \<open>Cursors\<close>

lemma pre_dec_is_pre_inc:
  "StringConstIterator_pre_dec it = StringConstIterator_pre_inc it"
  "StringIterator_pre_dec it = StringIterator_pre_inc it"
  by (simp_all add: StringConstIterator_pre_dec_def StringConstIterator_pre_inc_def
        StringIterator_pre_dec_def StringIterator_pre_inc_def)

text \<open>
  C10. \<^verbatim>\<open>operator--\<close> of the read-only cursor executes \<^verbatim>\<open>++ptr\<close>, and the mutable
  cursor forwards to it. From position 5, \<^verbatim>\<open>++p\<close> then \<^verbatim>\<open>--p\<close> ends at 7, not at
  5, for both kinds, and \<^verbatim>\<open>--p\<close> alone moves from 5 to 6, one position forward;
  \<^verbatim>\<open>p -= 1\<close> moves to 4.
\<close>

theorem pre_decrement_moves_forward:
  "ptr (StringConstIterator_pre_dec (StringConstIterator_pre_inc \<lparr>ptr = 5\<rparr>)) = 7 \<and>
   ptr (StringIterator_pre_dec (StringIterator_pre_inc \<lparr>ptr = 5\<rparr>)) = 7 \<and>
   ptr (StringConstIterator_pre_dec \<lparr>ptr = 5\<rparr>) = 6 \<and>
   ptr (StringIterator_pre_dec \<lparr>ptr = 5\<rparr>) = 6 \<and>
   ptr (StringConstIterator_sub_assign \<lparr>ptr = 5\<rparr> 1) = 4"
  by (simp add: StringConstIterator_pre_dec_def StringConstIterator_pre_inc_def
        StringIterator_pre_dec_def StringIterator_pre_inc_def StringConstIterator_sub_assign_def)

end
